theory Spec2Isabelle
  imports Main "HOL-Library.Word"
begin

section \<open>Common types\<close>

text \<open>
  Go's \<open>uint\<close> (and \<open>uint64\<close>) on a 64-bit platform: a 64-bit word. Arithmetic
  wraps around, comparison is unsigned.
\<close>

type_synonym uint = "64 word"

text \<open>
  How a call ends: it returns a value, it panics (a nil dereference, an index out of
  range, unlocking an unlocked mutex), or it never returns because it waits for a lock
  that nobody releases.
\<close>

datatype 'a exec = Blocked | Panic | Return 'a

definition exec_bind :: "'a exec \<Rightarrow> ('a \<Rightarrow> 'b exec) \<Rightarrow> 'b exec" where
  "exec_bind x f = (case x of Blocked \<Rightarrow> Blocked | Panic \<Rightarrow> Panic | Return a \<Rightarrow> f a)"

text \<open>
  The error values of the three packages. Each constructor stands for one
  \<open>fmt.Errorf\<close> format string of the source and carries the arguments formatted into
  it; a wrapped error (\<open>err.Error()\<close> formatted with \<open>%s\<close>) is carried as it is.
\<close>

datatype NumErr = ErrSyntax | ErrRange

datatype error =
    DayRangeErr uint
    \<comment> \<open>"expected day (%d) to be between 0 and 31 (inclusive)"\<close>
  | MonthRangeErr uint
    \<comment> \<open>"expected month (%d) to be between 0 and 12 (inclusive)"\<close>
  | DayLeapErr uint uint
    \<comment> \<open>"day (%d) greater than 29 in leap year (%d)"\<close>
  | DayNonLeapErr uint uint
    \<comment> \<open>"day (%d) greater than 28 in non-leap year (%d)"\<close>
  | DayUpperBoundErr uint uint string
    \<comment> \<open>"expected day (%d) to be at most %d for month %s"\<close>
  | InvalidDateErr error
    \<comment> \<open>"invalid date: %s"\<close>
  | ParseUintErr string NumErr
    \<comment> \<open>\<open>*strconv.NumError\<close> of \<open>ParseUint\<close>: the input and \<open>ErrSyntax\<close> or \<open>ErrRange\<close>\<close>
  | RecordLenErr nat
    \<comment> \<open>"invalid record: expected %d entries"\<close>
  | RecordIdErr string error
    \<comment> \<open>"invalid record (id: '%s'): %s"\<close>
  | RecordPriceErr string error
    \<comment> \<open>"invalid record (price: '%s'): %s"\<close>
  | RecordStateErr string
    \<comment> \<open>"invalid record (state: '%s;): unrecognized state"\<close>
  | RoomsOpenErr string
    \<comment> \<open>"rooms load err: %s", the message of \<open>os.Open\<close>\<close>
  | LoadFatalErr string
    \<comment> \<open>"load err [fatal]: %s", the message of the CSV reader\<close>
  | RoomParseErr error
    \<comment> \<open>"load err: room parse err: %s"\<close>
  | AttrsOpenErr string
    \<comment> \<open>"attributes load err: %s", the message of \<open>os.Open\<close>\<close>

section \<open>Package date\<close>

record Date =
  Day :: uint
  Month :: uint
  Year :: uint

abbreviation (input) Jan :: uint where "Jan \<equiv> 1"
abbreviation (input) Feb :: uint where "Feb \<equiv> 2"
abbreviation (input) Mar :: uint where "Mar \<equiv> 3"
abbreviation (input) Apr :: uint where "Apr \<equiv> 4"
abbreviation (input) May :: uint where "May \<equiv> 5"
abbreviation (input) Jun :: uint where "Jun \<equiv> 6"
abbreviation (input) Jul :: uint where "Jul \<equiv> 7"
abbreviation (input) Aug :: uint where "Aug \<equiv> 8"
abbreviation (input) Sep :: uint where "Sep \<equiv> 9"
abbreviation (input) Oct :: uint where "Oct \<equiv> 10"
abbreviation (input) Nov :: uint where "Nov \<equiv> 11"
abbreviation (input) Dec :: uint where "Dec \<equiv> 12"

definition InvalidMonth :: string where
  "InvalidMonth = ''INVALID_MONTH''"

text \<open>The \<open>switch\<close> of \<open>MonthToStr\<close>, case by case in the order of the source.\<close>

definition MonthToStr :: "uint \<Rightarrow> string" where
  "MonthToStr m =
     (if m = Jan then ''January''
      else if m = Feb then ''February''
      else if m = Mar then ''March''
      else if m = Apr then ''April''
      else if m = Jun then ''June''
      else if m = Jul then ''July''
      else if m = Aug then ''August''
      else if m = Sep then ''September''
      else if m = Oct then ''October''
      else if m = Nov then ''November''
      else if m = Dec then ''December''
      else InvalidMonth)"

definition isLeapYear :: "uint \<Rightarrow> bool" where
  "isLeapYear y =
     (if y mod 400 = 0 then True
      else if y mod 100 = 0 then False
      else if y mod 4 = 0 then True
      else False)"

text \<open>
  \<open>IsValid\<close>: \<open>None\<close> is the \<open>nil\<close> error. The local \<open>ub\<close> is declared with
  \<open>var ub uint\<close>, so it is 0 until a branch of the \<open>switch\<close> assigns it; the
  \<open>Feb\<close> branch returns early or falls out of the \<open>switch\<close> without assigning it.
  \<open>IsValid_switch\<close> is the \<open>switch\<close>: an early return (\<open>Inl\<close>) or the value of
  \<open>ub\<close> after it (\<open>Inr\<close>).
\<close>

definition IsValid_switch :: "Date \<Rightarrow> bool \<Rightarrow> error + uint" where
  "IsValid_switch d isLeap =
     (if Month d = Feb then
        (if isLeap then
           (if Day d > 29 then Inl (DayLeapErr (Day d) (Year d)) else Inr 0)
         else
           (if Day d > 28 then Inl (DayNonLeapErr (Day d) (Year d)) else Inr 0))
      else if Month d = Jan \<or> Month d = Mar \<or> Month d = May \<or> Month d = Jul
              \<or> Month d = Aug \<or> Month d = Oct \<or> Month d = Dec then Inr 31
      else Inr 30)"

definition IsValid :: "Date \<Rightarrow> error option" where
  "IsValid d =
     (if Day d = 0 \<or> Day d > 31 then Some (DayRangeErr (Day d))
      else if Month d = 0 \<or> Month d > 12 then Some (MonthRangeErr (Month d))
      else
        (case IsValid_switch d (isLeapYear (Year d)) of
           Inl err \<Rightarrow> Some err
         | Inr ub \<Rightarrow>
             (if Day d > ub
              then Some (DayUpperBoundErr (Day d) ub (MonthToStr (Month d)))
              else None)))"

text \<open>
  \<open>New\<close> returns Go's pair \<open>(*Date, error)\<close>: \<open>None\<close> is \<open>nil\<close> in either
  component. The first \<open>if\<close> of the source has an empty body, so it does nothing.
\<close>

definition New :: "uint \<Rightarrow> uint \<Rightarrow> uint \<Rightarrow> Date option \<times> error option" where
  "New year month day =
     (let d = \<lparr>Day = day, Month = month, Year = year\<rparr> in
      case IsValid d of
        Some err \<Rightarrow> (None, Some (InvalidDateErr err))
      | None \<Rightarrow> (Some d, None))"

section \<open>sync.RWMutex\<close>

text \<open>
  The lock of a \<open>Room\<close> and of a \<open>Hotel\<close>, as one thread of control sees it: how
  many read locks are held and whether the write lock is held. \<open>Lock\<close> waits until no
  lock is held; with a single thread of control a lock that is held now stays held, so
  the call never returns. \<open>RLock\<close> waits for the write lock only. \<open>Unlock\<close> of a
  mutex that is not write-locked is a fatal run-time error. \<open>RLocker\<close> returns a
  \<open>Locker\<close> interface for the read side and changes nothing: it is not \<open>RUnlock\<close>.
\<close>

record RWMutex =
  readerCount :: nat
  writer :: bool

definition new_RWMutex :: RWMutex where
  "new_RWMutex = \<lparr>readerCount = 0, writer = False\<rparr>"

definition Lock :: "RWMutex \<Rightarrow> RWMutex exec" where
  "Lock m = (if writer m \<or> 0 < readerCount m then Blocked else Return (m\<lparr>writer := True\<rparr>))"

definition Unlock :: "RWMutex \<Rightarrow> RWMutex exec" where
  "Unlock m = (if writer m then Return (m\<lparr>writer := False\<rparr>) else Panic)"

definition RLock :: "RWMutex \<Rightarrow> RWMutex exec" where
  "RLock m = (if writer m then Blocked else Return (m\<lparr>readerCount := readerCount m + 1\<rparr>))"

definition RLocker :: "RWMutex \<Rightarrow> RWMutex" where
  "RLocker m = m"

section \<open>strconv.ParseUint and strings.Split\<close>

text \<open>
  \<open>strconv.ParseUint(s, 10, 64)\<close>: the empty string is a syntax error; the bytes are
  read left to right into \<open>n\<close>; a byte that is not a decimal digit is a syntax error
  (a letter has a digit value of at least 10, which base 10 rejects like any other
  byte); \<open>n \<ge> cutoff\<close> before the multiplication, or a sum that wraps around, is a
  range error. \<open>cutoff\<close> is \<open>maxUint64/10 + 1\<close>.
\<close>

definition cutoff :: uint where
  "cutoff = (- 1) div 10 + 1"

definition maxVal :: uint where
  "maxVal = - 1"

fun ParseUint_loop :: "uint \<Rightarrow> string \<Rightarrow> NumErr + uint" where
  "ParseUint_loop n [] = Inr n"
| "ParseUint_loop n (c # cs) =
     (if 48 \<le> (of_char c :: nat) \<and> (of_char c :: nat) \<le> 57 then
        (let d = (of_nat (of_char c - 48) :: uint) in
         if n \<ge> cutoff then Inl ErrRange
         else
           (let n' = n * 10; n1 = n' + d in
            if n1 < n' \<or> n1 > maxVal then Inl ErrRange
            else ParseUint_loop n1 cs))
      else Inl ErrSyntax)"

definition ParseUint :: "string \<Rightarrow> error + uint" where
  "ParseUint s =
     (if s = [] then Inl (ParseUintErr s ErrSyntax)
      else case ParseUint_loop 0 s of
             Inl e \<Rightarrow> Inl (ParseUintErr s e)
           | Inr n \<Rightarrow> Inr n)"

text \<open>
  \<open>strings.Split(s, sep)\<close> for a separator that is not empty: \<open>s\<close> is cut at each
  occurrence of the whole string \<open>sep\<close>, found left to right without overlap; the
  pieces between the occurrences are returned, so the result has at least one element.
  \<open>Split_from sep piece s\<close> holds in \<open>piece\<close> the bytes read since the last
  occurrence. (With an empty separator Go cuts after each character; the program never
  calls it so.)
\<close>

function Split_from :: "string \<Rightarrow> string \<Rightarrow> string \<Rightarrow> string list" where
  "Split_from sep piece [] = [piece]"
| "Split_from sep piece (c # cs) =
     (if sep \<noteq> [] \<and> take (length sep) (c # cs) = sep
      then piece # Split_from sep [] (drop (length sep) (c # cs))
      else Split_from sep (piece @ [c]) cs)"
  by pat_completeness auto
termination
  by (relation "measure (\<lambda>(sep, piece, s). length s)") auto

definition Split :: "string \<Rightarrow> string \<Rightarrow> string list" where
  "Split s sep = (if sep = [] then map (\<lambda>c. [c]) s else Split_from sep [] s)"

section \<open>Package room\<close>

type_synonym Number = uint
type_synonym Attribute = string
type_synonym State = string

abbreviation (input) StateOccupied :: State where "StateOccupied \<equiv> ''OCCUPIED''"
abbreviation (input) StateUnavailable :: State where "StateUnavailable \<equiv> ''UNAVAILABLE''"
abbreviation (input) StateFree :: State where "StateFree \<equiv> ''FREE''"

abbreviation (input) EntryID :: nat where "EntryID \<equiv> 0"
abbreviation (input) EntryPrice :: nat where "EntryPrice \<equiv> 1"
abbreviation (input) EntryState :: nat where "EntryState \<equiv> 2"
abbreviation (input) EntryAttributes :: nat where "EntryAttributes \<equiv> 3"

text \<open>
  The struct \<open>Room\<close>. The field \<open>mu\<close> points to a mutex that the constructor
  allocates for this room alone, so the state of the mutex is kept in the room. The
  field \<open>attrs\<close> is a \<open>map[Attribute]struct{}\<close>. A \<open>State\<close> is a Go string; its
  zero value is the empty string.
\<close>

record Room =
  room_mu :: RWMutex
  room_id :: Number
  room_price :: uint
  room_state :: State
  room_attrs :: "Attribute \<rightharpoonup> unit"

definition NewRoom :: "Number \<Rightarrow> Room" where
  "NewRoom n =
     \<lparr>room_mu = new_RWMutex, room_id = n, room_price = 0, room_state = [],
      room_attrs = Map.empty\<rparr>"

abbreviation (input) recordLen :: nat where "recordLen \<equiv> 4"

text \<open>The \<open>switch\<close> on \<open>stateStr\<close>; \<open>None\<close> is its \<open>default\<close> branch.\<close>

definition parse_state :: "string \<Rightarrow> State option" where
  "parse_state stateStr =
     (if stateStr = ''OCCUPIED'' then Some StateOccupied
      else if stateStr = ''UNAVAILABLE'' then Some StateUnavailable
      else if stateStr = ''FREE'' then Some StateFree
      else None)"

text \<open>
  \<open>NewRoomFromRecord\<close> returns Go's pair \<open>(*Room, error)\<close>. The indices 0 to 3 are
  read only after the length of the record has been checked to be 4.
\<close>

definition NewRoomFromRecord ::
    "string list \<Rightarrow> Attribute list \<Rightarrow> Room option \<times> error option" where
  "NewRoomFromRecord record validAttributes =
     (if length record \<noteq> recordLen then (None, Some (RecordLenErr recordLen))
      else case ParseUint (record ! EntryID) of
        Inl err \<Rightarrow> (None, Some (RecordIdErr (record ! 0) err))
      | Inr id64 \<Rightarrow>
         (case ParseUint (record ! EntryPrice) of
            Inl err \<Rightarrow> (None, Some (RecordPriceErr (record ! 1) err))
          | Inr price64 \<Rightarrow>
             (let stateStr = record ! EntryState in
              case parse_state stateStr of
                None \<Rightarrow> (None, Some (RecordStateErr stateStr))
              | Some state \<Rightarrow>
                 (let roomAttrs =
                        fold (\<lambda>attr m. m(attr \<mapsto> ()))
                          (Split (record ! EntryAttributes) '','') Map.empty
                  in (Some \<lparr>room_mu = new_RWMutex, room_id = id64, room_price = price64,
                             room_state = state, room_attrs = roomAttrs\<rparr>,
                      None)))))"

text \<open>
  \<open>ID\<close> has a pointer receiver and reads \<open>r.id\<close>: on a \<open>nil\<close> pointer that is a
  nil dereference.
\<close>

definition ID :: "Room option \<Rightarrow> Number exec" where
  "ID r = (case r of None \<Rightarrow> Panic | Some room \<Rightarrow> Return (room_id room))"

text \<open>\<open>AddAttribute\<close>: \<open>Lock\<close>, the assignment to the map, and the deferred \<open>Unlock\<close>.\<close>

definition AddAttribute :: "Room \<Rightarrow> Attribute \<Rightarrow> Room exec" where
  "AddAttribute r attr =
     exec_bind (Lock (room_mu r)) (\<lambda>m.
       let r1 = r\<lparr>room_mu := m, room_attrs := (room_attrs r)(attr \<mapsto> ())\<rparr> in
       exec_bind (Unlock (room_mu r1)) (\<lambda>m'. Return (r1\<lparr>room_mu := m'\<rparr>)))"

text \<open>
  \<open>Satisfies\<close>: \<open>RLock\<close>, the loop over \<open>attrs\<close>, and the deferred call, which the
  source writes \<open>r.mu.RLocker()\<close>. The room is returned with the result because the
  state of its mutex has changed.
\<close>

fun Satisfies_loop :: "(Attribute \<rightharpoonup> unit) \<Rightarrow> Attribute list \<Rightarrow> bool" where
  "Satisfies_loop m [] = True"
| "Satisfies_loop m (attr # rest) =
     (if m attr = None then False else Satisfies_loop m rest)"

definition Satisfies :: "Room \<Rightarrow> Attribute list \<Rightarrow> (Room \<times> bool) exec" where
  "Satisfies r attrs =
     exec_bind (RLock (room_mu r)) (\<lambda>m.
       let r1 = r\<lparr>room_mu := m\<rparr>;
           result = Satisfies_loop (room_attrs r1) attrs
       in Return (r1\<lparr>room_mu := RLocker (room_mu r1)\<rparr>, result))"

text \<open>
  A sequence of calls on one room, run one after the other; the results of the
  \<open>Satisfies\<close> calls are collected in call order.
\<close>

datatype RoomOp = CallAddAttribute Attribute | CallSatisfies "Attribute list"

fun run_calls :: "Room \<Rightarrow> RoomOp list \<Rightarrow> (Room \<times> bool list) exec" where
  "run_calls r [] = Return (r, [])"
| "run_calls r (CallAddAttribute attr # rest) =
     exec_bind (AddAttribute r attr) (\<lambda>r'. run_calls r' rest)"
| "run_calls r (CallSatisfies attrs # rest) =
     exec_bind (Satisfies r attrs) (\<lambda>(r', b).
       exec_bind (run_calls r' rest) (\<lambda>(r'', bs). Return (r'', b # bs)))"

section \<open>Package hotel\<close>

record Hotel =
  hotel_mu :: RWMutex
  numRooms :: uint
  rooms :: "Number \<rightharpoonup> Room"
  roomAttrs :: "Attribute list"

text \<open>
  The two data files. \<open>os.Open\<close> fails with a message or opens the file. An opened
  attribute file is what \<open>bufio.Scanner\<close> makes of it: the lines that \<open>Scan\<close>
  yields until it returns false, and the error that \<open>scanner.Err()\<close> then holds,
  \<open>nil\<close> at the end of the file and the failure otherwise (a read error, or a line
  longer than the buffer of the scanner). An opened room file is the sequence of
  results of \<open>csvReader.Read()\<close> before \<open>io.EOF\<close>: a record or an error of the reader.
\<close>

datatype 'a opened = OpenFails string | Opened 'a

datatype scanned = Scanned "string list" "string option"

datatype csv_read = Record "string list" | ReadError string

text \<open>
  One pass of the loop of \<open>loadRooms\<close> over a record that is not the header:
  \<open>Inl\<close> is the early \<open>return\<close> of an error, \<open>Inr\<close> the transient map after
  \<open>rooms[room.ID()] = room\<close>. The test \<open>err != nil && strict\<close> is the case
  distinction on \<open>if strict then err else None\<close>: with \<open>strict\<close> false the error
  is never looked at. The map stores pointers; \<open>room.ID()\<close> is evaluated first and
  panics on \<open>nil\<close>, so only rooms are ever stored.
\<close>

definition loadRooms_step ::
    "Attribute list \<Rightarrow> bool \<Rightarrow> string list \<Rightarrow> (Number \<rightharpoonup> Room)
       \<Rightarrow> (error + (Number \<rightharpoonup> Room)) exec" where
  "loadRooms_step vocabulary strict record rooms' =
     (case NewRoomFromRecord record vocabulary of (room, err) \<Rightarrow>
        (case (if strict then err else None) of
           Some e \<Rightarrow> Return (Inl (RoomParseErr e))
         | None \<Rightarrow>
            exec_bind (ID room) (\<lambda>k.
              case room of None \<Rightarrow> Panic | Some r \<Rightarrow> Return (Inr (rooms'(k \<mapsto> r))))))"

fun loadRooms_loop ::
    "Attribute list \<Rightarrow> bool \<Rightarrow> csv_read list \<Rightarrow> bool \<Rightarrow> (Number \<rightharpoonup> Room)
       \<Rightarrow> (error + (Number \<rightharpoonup> Room)) exec" where
  "loadRooms_loop vocabulary strict [] initialRecord rooms' = Return (Inr rooms')"
| "loadRooms_loop vocabulary strict (ReadError msg # rest) initialRecord rooms' =
     Return (Inl (LoadFatalErr msg))"
| "loadRooms_loop vocabulary strict (Record record # rest) initialRecord rooms' =
     (if initialRecord then loadRooms_loop vocabulary strict rest False rooms'
      else case loadRooms_step vocabulary strict record rooms' of
             Blocked \<Rightarrow> Blocked
           | Panic \<Rightarrow> Panic
           | Return (Inl err) \<Rightarrow> Return (Inl err)
           | Return (Inr rooms'') \<Rightarrow> loadRooms_loop vocabulary strict rest False rooms'')"

text \<open>
  \<open>loadRooms\<close> returns the hotel as the call leaves it, with the error (\<open>None\<close> is
  \<open>nil\<close>). The loop \<open>for k, v := range rooms { h.rooms[k] = v }\<close> assigns every entry
  of the transient map, whose keys are distinct: that is \<open>rooms h ++ rooms'\<close>.
\<close>

definition loadRooms ::
    "Hotel \<Rightarrow> csv_read list opened \<Rightarrow> bool \<Rightarrow> (Hotel \<times> error option) exec" where
  "loadRooms h roomData strict =
     (case roomData of
        OpenFails msg \<Rightarrow> Return (h, Some (RoomsOpenErr msg))
      | Opened reads \<Rightarrow>
         (case loadRooms_loop (roomAttrs h) strict reads True Map.empty of
            Blocked \<Rightarrow> Blocked
          | Panic \<Rightarrow> Panic
          | Return (Inl err) \<Rightarrow> Return (h, Some err)
          | Return (Inr rooms') \<Rightarrow>
             exec_bind (Lock (hotel_mu h)) (\<lambda>m.
               let h1 = h\<lparr>hotel_mu := m, rooms := rooms h ++ rooms'\<rparr> in
               exec_bind (Unlock (hotel_mu h1)) (\<lambda>m'.
                 Return (h1\<lparr>hotel_mu := m'\<rparr>, None)))))"

text \<open>
  The loop of \<open>loadAttributes\<close>. The source takes element 0 of
  \<open>strings.Split(scanner.Text(), " \t")\<close>: the separator is the two-byte string made of
  a space and a tab. After the loop the source returns \<open>nil\<close>; it never reads
  \<open>scanner.Err()\<close>.
\<close>

definition space_tab :: string where
  "space_tab = [CHR '' '', CHR 0x09]"

fun loadAttributes_scan :: "string list \<Rightarrow> Attribute list \<Rightarrow> Attribute list exec" where
  "loadAttributes_scan [] vocabulary = Return vocabulary"
| "loadAttributes_scan (line # rest) vocabulary =
     (case Split line space_tab of
        [] \<Rightarrow> Panic
      | attr # _ \<Rightarrow>
         (if attr = [] \<or> attr = ''#'' then loadAttributes_scan rest vocabulary
          else loadAttributes_scan rest (vocabulary @ [attr])))"

definition loadAttributes ::
    "Hotel \<Rightarrow> scanned opened \<Rightarrow> (Hotel \<times> error option) exec" where
  "loadAttributes h attrData =
     (case attrData of
        OpenFails msg \<Rightarrow> Return (h, Some (AttrsOpenErr msg))
      | Opened (Scanned lines scan_err) \<Rightarrow>
         exec_bind (Lock (hotel_mu h)) (\<lambda>m.
           exec_bind (loadAttributes_scan lines (roomAttrs h)) (\<lambda>vocabulary.
             let h1 = h\<lparr>hotel_mu := m, roomAttrs := vocabulary\<rparr> in
             exec_bind (Unlock (hotel_mu h1)) (\<lambda>m'.
               Return (h1\<lparr>hotel_mu := m'\<rparr>, None)))))"

definition new_Hotel :: Hotel where
  "new_Hotel = \<lparr>hotel_mu = new_RWMutex, numRooms = 0, rooms = Map.empty, roomAttrs = []\<rparr>"

text \<open>\<open>NewHotelFromData\<close> returns Go's pair \<open>(*Hotel, error)\<close>.\<close>

definition NewHotelFromData ::
    "scanned opened \<Rightarrow> csv_read list opened \<Rightarrow> bool
       \<Rightarrow> (Hotel option \<times> error option) exec" where
  "NewHotelFromData attrData roomData strict =
     exec_bind (loadAttributes new_Hotel attrData) (\<lambda>(hotel, err).
       case err of
         Some e \<Rightarrow> Return (None, Some e)
       | None \<Rightarrow>
          exec_bind (loadRooms hotel roomData strict) (\<lambda>(hotel', err').
            case err' of
              Some e \<Rightarrow> Return (None, Some e)
            | None \<Rightarrow>
               Return (Some (hotel'\<lparr>numRooms := of_nat (card (dom (rooms hotel')))\<rparr>),
                       None)))"

section \<open>The rooms that a room file describes\<close>


definition last_with_id :: "Number \<Rightarrow> Room list \<Rightarrow> Room option" where
  "last_with_id k rs = find (\<lambda>r. room_id r = k) (rev rs)"

section \<open>Basic facts\<close>

lemma exec_bind_simps [simp]:
  "exec_bind Blocked f = Blocked"
  "exec_bind Panic f = Panic"
  "exec_bind (Return a) f = f a"
  by (simp_all add: exec_bind_def)

lemma exec_bind_Return_iff:
  "exec_bind x f = Return y \<longleftrightarrow> (\<exists>a. x = Return a \<and> f a = Return y)"
  by (cases x) simp_all

lemma writer_False_id: "\<not> writer m \<Longrightarrow> m\<lparr>writer := False\<rparr> = m"
  by (cases m) simp

text \<open>\<open>ParseUint\<close> on the numbers of the example files.\<close>

lemma ParseUint_80: "ParseUint ''80'' = Inr 80"
  by code_simp

lemma ParseUint_100: "ParseUint ''100'' = Inr 100"
  by code_simp

lemma ParseUint_101: "ParseUint ''101'' = Inr 101"
  by code_simp

lemma ParseUint_102: "ParseUint ''102'' = Inr 102"
  by code_simp

lemma ParseUint_250: "ParseUint ''250'' = Inr 250"
  by code_simp

lemma ParseUint_abc: "ParseUint ''abc'' = Inl (ParseUintErr ''abc'' ErrSyntax)"
  by code_simp

lemma ParseUint_max: "ParseUint ''18446744073709551615'' = Inr 18446744073709551615"
  by code_simp

lemma ParseUint_overflow:
  "ParseUint ''18446744073709551616'' = Inl (ParseUintErr ''18446744073709551616'' ErrRange)"
  by code_simp

lemmas example_defs =
  NewRoomFromRecord_def ParseUint_80 ParseUint_100 ParseUint_101 ParseUint_102
  ParseUint_250 ParseUint_abc parse_state_def Split_def loadRooms_step_def ID_def
  new_RWMutex_def new_Hotel_def

subsection \<open>Calls on a room\<close>

lemma Satisfies_loop_iff: "Satisfies_loop m attrs \<longleftrightarrow> (\<forall>a\<in>set attrs. a \<in> dom m)"
  by (induction attrs) auto

lemma Satisfies_unlocked:
  "\<not> writer (room_mu r) \<Longrightarrow>
   Satisfies r attrs =
     Return (r\<lparr>room_mu := (room_mu r)\<lparr>readerCount := readerCount (room_mu r) + 1\<rparr>\<rparr>,
             Satisfies_loop (room_attrs r) attrs)"
  by (simp add: Satisfies_def RLock_def RLocker_def)

lemma AddAttribute_free:
  "\<not> writer (room_mu r) \<Longrightarrow> readerCount (room_mu r) = 0 \<Longrightarrow>
   AddAttribute r attr = Return (r\<lparr>room_attrs := (room_attrs r)(attr \<mapsto> ())\<rparr>)"
  by (simp add: AddAttribute_def Lock_def Unlock_def)

lemma AddAttribute_Return:
  "AddAttribute r attr = Return r' \<Longrightarrow>
   r' = r\<lparr>room_attrs := (room_attrs r)(attr \<mapsto> ())\<rparr>
   \<and> \<not> writer (room_mu r) \<and> readerCount (room_mu r) = 0"
  by (auto simp: AddAttribute_def Lock_def Unlock_def split: if_splits)

lemma Satisfies_Return:
  "Satisfies r attrs = Return (r', b) \<Longrightarrow>
   room_state r' = room_state r \<and> room_attrs r' = room_attrs r \<and> room_id r' = room_id r
   \<and> room_price r' = room_price r \<and> writer (room_mu r') = writer (room_mu r)"
  by (auto simp: Satisfies_def RLock_def RLocker_def split: if_splits)

text \<open>
  No sequence of calls changes the identifier, the price or the state of a room, and
  none leaves the write lock held.
\<close>

lemma run_calls_frame:
  "run_calls r calls = Return (r', answers) \<Longrightarrow>
   room_state r' = room_state r \<and> room_id r' = room_id r \<and> room_price r' = room_price r
   \<and> writer (room_mu r') = writer (room_mu r)"
proof (induction calls arbitrary: r r' answers)
  case Nil
  then show ?case by simp
next
  case (Cons c rest)
  show ?case
  proof (cases c)
    case (CallAddAttribute attr)
    with Cons.prems obtain r1 where a: "AddAttribute r attr = Return r1"
      and b: "run_calls r1 rest = Return (r', answers)"
      by (auto simp: exec_bind_Return_iff)
    from Cons.IH[OF b] AddAttribute_Return[OF a] show ?thesis by simp
  next
    case (CallSatisfies attrs)
    with Cons.prems obtain r1 b bs where a: "Satisfies r attrs = Return (r1, b)"
      and c: "run_calls r1 rest = Return (r', bs)"
      by (auto simp: exec_bind_Return_iff split: prod.splits)
    from Cons.IH[OF c] Satisfies_Return[OF a] show ?thesis by simp
  qed
qed

subsection \<open>Records\<close>

lemma parse_state_Some:
  "parse_state s = Some st \<Longrightarrow> st = s \<and> s \<in> {''OCCUPIED'', ''UNAVAILABLE'', ''FREE''}"
  by (auto simp: parse_state_def split: if_splits)

lemma NewRoomFromRecord_Some:
  "NewRoomFromRecord cells vocabulary = (Some r, err) \<Longrightarrow>
   err = None \<and> length cells = 4 \<and> room_state r = cells ! 2
   \<and> room_state r \<in> {''OCCUPIED'', ''UNAVAILABLE'', ''FREE''}
   \<and> room_mu r = new_RWMutex"
  by (auto simp: NewRoomFromRecord_def Let_def dest!: parse_state_Some
      split: if_splits sum.splits option.splits)




lemma last_with_id_Nil [simp]: "last_with_id k [] = None"
  by (simp add: last_with_id_def)


subsection \<open>The loaders\<close>




lemma loadRooms_Opened:
  "loadRooms h (Opened reads) strict = Return (h', err) \<longleftrightarrow>
     ((\<exists>e. loadRooms_loop (roomAttrs h) strict reads True Map.empty = Return (Inl e)
           \<and> h' = h \<and> err = Some e)
      \<or> (\<exists>parsed. loadRooms_loop (roomAttrs h) strict reads True Map.empty
                     = Return (Inr parsed)
           \<and> \<not> writer (hotel_mu h) \<and> readerCount (hotel_mu h) = 0
           \<and> h' = h\<lparr>rooms := rooms h ++ parsed\<rparr> \<and> err = None))"
  by (auto simp: loadRooms_def Lock_def Unlock_def Let_def writer_False_id
      split: exec.splits sum.splits)

lemma loadAttributes_error:
  "loadAttributes h attrData = Return (h', Some e) \<Longrightarrow> h' = h"
  by (auto simp: loadAttributes_def Lock_def Unlock_def Let_def exec_bind_Return_iff
      split: opened.splits scanned.splits if_splits)


lemma loadRooms_error:
  "loadRooms h roomData strict = Return (h', Some e) \<Longrightarrow> h' = h"
  by (cases roomData) (auto simp: loadRooms_Opened, simp add: loadRooms_def)

lemma NewHotelFromData_Return:
  "NewHotelFromData attrData roomData strict = Return (hotel, err) \<Longrightarrow>
     (hotel = None) = (err \<noteq> None)"
  by (auto simp: NewHotelFromData_def exec_bind_Return_iff split: prod.splits option.splits)

lemma NewHotelFromData_Some:
  "NewHotelFromData attrData roomData strict = Return (Some hotel, err) \<Longrightarrow>
   \<exists>h1 h2. loadAttributes new_Hotel attrData = Return (h1, None)
     \<and> loadRooms h1 roomData strict = Return (h2, None)
     \<and> hotel = h2\<lparr>numRooms := of_nat (card (dom (rooms h2)))\<rparr> \<and> err = None"
  by (auto simp: NewHotelFromData_def exec_bind_Return_iff split: prod.splits option.splits)

section \<open>Package date: months and dates\<close>

text \<open>
  Claim C4. \<open>MonthToStr\<close> is claimed to return the full English name of every month
  from 1 to 12 and the sentinel \<open>INVALID_MONTH\<close> for every other value. The
  \<open>switch\<close> has no case for \<open>May\<close>: month 5 falls to the \<open>default\<close> branch and
  gets the sentinel, while month 2 is \<open>February\<close> and month 13 the sentinel as
  claimed.
\<close>

theorem MonthToStr_May_is_sentinel:
  "MonthToStr 5 = ''INVALID_MONTH'' \<and> MonthToStr 2 = ''February''
   \<and> MonthToStr 13 = ''INVALID_MONTH''"
  by (simp add: MonthToStr_def InvalidMonth_def)

text \<open>
  What \<open>MonthToStr\<close> does on every value: the sentinel is returned exactly for 0,
  for 5 and for the values above 12.
\<close>

theorem MonthToStr_sentinel_iff:
  "MonthToStr m = InvalidMonth \<longleftrightarrow> m = 0 \<or> m = 5 \<or> 12 < m"
proof -
  have "unat m \<le> 12 \<Longrightarrow> unat m \<in> {0,1,2,3,4,5,6,7,8,9,10,11,12}"
    by simp arith
  then have "m \<le> 12 \<Longrightarrow> m \<in> {0,1,2,3,4,5,6,7,8,9,10,11,12}"
    by (simp add: word_le_nat_alt word_unat_eq_iff)
  then show ?thesis
    by (auto simp: MonthToStr_def InvalidMonth_def not_less)
qed

text \<open>
  Claim C2. \<open>New\<close> is claimed to succeed exactly on the dates whose month is in 1 to
  12 and whose day is within the true length of the month. In the \<open>Feb\<close>
  branch of \<open>IsValid\<close> the bound \<open>ub\<close> keeps its zero value, so the final test
  \<open>d.Day > ub\<close> rejects every day of February: 15 February 2023 and 29 February 2024
  are refused with the bound 0 in the error, while 30 February 2024 is refused by the
  leap-year test and 31 May 2024 is accepted.
\<close>

theorem New_rejects_valid_February:
  "New 2023 2 15 = (None, Some (InvalidDateErr (DayUpperBoundErr 15 0 ''February'')))
   \<and> New 2024 2 29 = (None, Some (InvalidDateErr (DayUpperBoundErr 29 0 ''February'')))
   \<and> New 2024 2 30 = (None, Some (InvalidDateErr (DayLeapErr 30 2024)))
   \<and> New 2024 5 31 = (Some \<lparr>Day = 31, Month = 5, Year = 2024\<rparr>, None)"
  by (simp add: New_def IsValid_def IsValid_switch_def isLeapYear_def MonthToStr_def)

text \<open>
  The dates that \<open>IsValid\<close> accepts: the month is one of 1 to 12 other
  than February, and the day is from 1 to 31 in the seven long months and from 1 to 30
  in April, June, September and November. No date in February is accepted.
\<close>

theorem IsValid_accepts_iff:
  "IsValid d = None \<longleftrightarrow>
     Month d \<noteq> 2 \<and> 1 \<le> Month d \<and> Month d \<le> 12 \<and> 1 \<le> Day d
     \<and> Day d \<le> (if Month d = 1 \<or> Month d = 3 \<or> Month d = 5 \<or> Month d = 7
                      \<or> Month d = 8 \<or> Month d = 10 \<or> Month d = 12 then 31 else 30)"
  by (auto simp: IsValid_def IsValid_switch_def word_le_nat_alt word_less_nat_alt
      word_unat_eq_iff split: sum.splits)

text \<open>
  The leap years of the specification's examples: 2000, 2024 and 2400 are
  leap years, 1900 and 2023 are not.
\<close>

theorem isLeapYear_examples:
  "isLeapYear 2000 \<and> \<not> isLeapYear 1900 \<and> isLeapYear 2024 \<and> \<not> isLeapYear 2023
   \<and> isLeapYear 2400"
  by (simp add: isLeapYear_def)

section \<open>Package room: records and calls on one room\<close>

text \<open>
  Claim C9. For every record and any two vocabularies, \<open>NewRoomFromRecord\<close> gives the
  same outcome, the same room or the same error: the vocabulary has no influence.
  Unknown attributes are never rejected: whether a record of four fields is refused,
  and with which error, depends neither on its attribute field nor on the vocabulary.
\<close>

theorem NewRoomFromRecord_ignores_vocabulary:
  "NewRoomFromRecord cells v1 = NewRoomFromRecord cells v2
   \<and> snd (NewRoomFromRecord [i, p, s, a] v1) = snd (NewRoomFromRecord [i, p, s, a'] v2)"
  by (simp add: NewRoomFromRecord_def Let_def split: sum.splits option.splits)

text \<open>
  Claim C5. Every room is claimed to have a state in \<open>{OCCUPIED, UNAVAILABLE, FREE}\<close>,
  whichever constructor made it. \<open>NewRoom\<close> leaves the state at the zero value of a
  Go string, the empty string, which is none of the three.
\<close>

theorem NewRoom_state_not_in_enum:
  "room_state (NewRoom 1) \<notin> {StateOccupied, StateUnavailable, StateFree}"
  by (simp add: NewRoom_def)

text \<open>
  Claim C5, amended. A room made by a successful \<open>NewRoomFromRecord\<close> has the state
  named by the third field of its record, one of \<open>OCCUPIED\<close>, \<open>UNAVAILABLE\<close> and
  \<open>FREE\<close>; no sequence of \<open>AddAttribute\<close> and \<open>Satisfies\<close> calls changes the state
  of a room; and a room made by \<open>NewRoom\<close> has the empty string as its state.
\<close>

theorem room_state_after_construction:
  "(NewRoomFromRecord cells vocabulary = (Some r, err) \<longrightarrow>
      room_state r = cells ! EntryState
      \<and> room_state r \<in> {StateOccupied, StateUnavailable, StateFree})
   \<and> (run_calls r0 calls = Return (r1, answers) \<longrightarrow> room_state r1 = room_state r0)
   \<and> room_state (NewRoom n) = []"
  using NewRoomFromRecord_Some[of cells vocabulary r err]
    run_calls_frame[of r0 calls r1 answers]
  by (auto simp: NewRoom_def)

theorem room_state_after_construction_witness:
  "NewRoomFromRecord [''101'', ''100'', ''FREE'', ''view''] [] =
     (Some \<lparr>room_mu = new_RWMutex, room_id = 101, room_price = 100,
            room_state = ''FREE'', room_attrs = [''view'' \<mapsto> ()]\<rparr>, None)
   \<and> run_calls \<lparr>room_mu = new_RWMutex, room_id = 101, room_price = 100,
                 room_state = ''FREE'', room_attrs = [''view'' \<mapsto> ()]\<rparr>
        [CallAddAttribute ''sea'', CallSatisfies [''sea'', ''view'']]
      = Return (\<lparr>room_mu = \<lparr>readerCount = 1, writer = False\<rparr>, room_id = 101,
                  room_price = 100, room_state = ''FREE'',
                  room_attrs = [''view'' \<mapsto> (), ''sea'' \<mapsto> ()]\<rparr>, [True])
   \<and> room_state \<lparr>room_mu = new_RWMutex, room_id = 101, room_price = 100,
                  room_state = ''FREE'', room_attrs = [''view'' \<mapsto> ()]\<rparr>
        \<in> {StateOccupied, StateUnavailable, StateFree}"
  using room_state_after_construction
    [of "[''101'', ''100'', ''FREE'', ''view'']" "[]"
        "\<lparr>room_mu = new_RWMutex, room_id = 101, room_price = 100,
          room_state = ''FREE'', room_attrs = [''view'' \<mapsto> ()]\<rparr>" None
        "\<lparr>room_mu = new_RWMutex, room_id = 101, room_price = 100,
          room_state = ''FREE'', room_attrs = [''view'' \<mapsto> ()]\<rparr>"
        "[CallAddAttribute ''sea'', CallSatisfies [''sea'', ''view'']]"]
  by (simp add: example_defs AddAttribute_def Satisfies_def Lock_def Unlock_def
      RLock_def RLocker_def)

text \<open>
  Claim C8. For every room whose write lock is not held and every sequence \<open>attrs\<close>,
  \<open>Satisfies\<close> returns, and it returns true if and only if every element of \<open>attrs\<close>
  is in the attribute set of the room; so it is true on the empty sequence. The room it
  leaves holds one read lock more. The write lock is held only while an
  \<open>AddAttribute\<close> call is running: the constructors make a room with a free mutex and
  no sequence of calls leaves the write lock held (\<open>NewRoomFromRecord_Some\<close>,
  \<open>run_calls_frame\<close>).
\<close>

theorem Satisfies_iff_all_present:
  assumes "\<not> writer (room_mu r)"
  shows "Satisfies r attrs =
     Return (r\<lparr>room_mu := (room_mu r)\<lparr>readerCount := readerCount (room_mu r) + 1\<rparr>\<rparr>,
             \<forall>a\<in>set attrs. a \<in> dom (room_attrs r))"
  using assms by (simp add: Satisfies_unlocked Satisfies_loop_iff)

theorem Satisfies_iff_all_present_witness:
  "\<not> writer (room_mu \<lparr>room_mu = \<lparr>readerCount = 2, writer = False\<rparr>, room_id = 7,
                        room_price = 0, room_state = ''FREE'',
                        room_attrs = [''a'' \<mapsto> (), ''b'' \<mapsto> ()]\<rparr>)
   \<and> Satisfies \<lparr>room_mu = \<lparr>readerCount = 2, writer = False\<rparr>, room_id = 7,
                 room_price = 0, room_state = ''FREE'',
                 room_attrs = [''a'' \<mapsto> (), ''b'' \<mapsto> ()]\<rparr> [''a'', ''b'']
     = Return (\<lparr>room_mu = \<lparr>readerCount = 3, writer = False\<rparr>, room_id = 7,
                 room_price = 0, room_state = ''FREE'',
                 room_attrs = [''a'' \<mapsto> (), ''b'' \<mapsto> ()]\<rparr>, True)
   \<and> Satisfies \<lparr>room_mu = \<lparr>readerCount = 2, writer = False\<rparr>, room_id = 7,
                 room_price = 0, room_state = ''FREE'',
                 room_attrs = [''a'' \<mapsto> (), ''b'' \<mapsto> ()]\<rparr> [''a'', ''c'']
     = Return (\<lparr>room_mu = \<lparr>readerCount = 3, writer = False\<rparr>, room_id = 7,
                 room_price = 0, room_state = ''FREE'',
                 room_attrs = [''a'' \<mapsto> (), ''b'' \<mapsto> ()]\<rparr>, False)
   \<and> Satisfies \<lparr>room_mu = \<lparr>readerCount = 2, writer = False\<rparr>, room_id = 7,
                 room_price = 0, room_state = ''FREE'',
                 room_attrs = [''a'' \<mapsto> (), ''b'' \<mapsto> ()]\<rparr> []
     = Return (\<lparr>room_mu = \<lparr>readerCount = 3, writer = False\<rparr>, room_id = 7,
                 room_price = 0, room_state = ''FREE'',
                 room_attrs = [''a'' \<mapsto> (), ''b'' \<mapsto> ()]\<rparr>, True)"
  using
    Satisfies_iff_all_present
      [of "\<lparr>room_mu = \<lparr>readerCount = 2, writer = False\<rparr>, room_id = 7,
            room_price = 0, room_state = ''FREE'',
            room_attrs = [''a'' \<mapsto> (), ''b'' \<mapsto> ()]\<rparr>" "[''a'', ''b'']"]
    Satisfies_iff_all_present
      [of "\<lparr>room_mu = \<lparr>readerCount = 2, writer = False\<rparr>, room_id = 7,
            room_price = 0, room_state = ''FREE'',
            room_attrs = [''a'' \<mapsto> (), ''b'' \<mapsto> ()]\<rparr>" "[''a'', ''c'']"]
    Satisfies_iff_all_present
      [of "\<lparr>room_mu = \<lparr>readerCount = 2, writer = False\<rparr>, room_id = 7,
            room_price = 0, room_state = ''FREE'',
            room_attrs = [''a'' \<mapsto> (), ''b'' \<mapsto> ()]\<rparr>" "[]"]
  by simp

text \<open>
  Claim C10. \<open>AddAttribute(a)\<close> is claimed to be a no-op whenever \<open>a\<close> is already in
  the attribute set, so that runs which differ only by such a repeated call answer
  every later \<open>Satisfies\<close> alike. \<open>Satisfies\<close> takes the read lock and defers
  \<open>r.mu.RLocker()\<close>, which releases nothing, so the read lock stays held after the
  call; the \<open>Lock\<close> of a later \<open>AddAttribute\<close> then waits for ever. The run without
  the repeated call answers both \<open>Satisfies\<close> calls; the run with it never reaches the
  second one.
\<close>

theorem AddAttribute_after_Satisfies_blocks:
  "(case run_calls (NewRoom 1)
           [CallAddAttribute ''a'', CallSatisfies [''a''], CallSatisfies [''a'']] of
      Return (r, answers) \<Rightarrow> answers = [True, True] | _ \<Rightarrow> False)
   \<and> run_calls (NewRoom 1)
         [CallAddAttribute ''a'', CallSatisfies [''a''], CallAddAttribute ''a'',
          CallSatisfies [''a'']] = Blocked"
  by (simp add: NewRoom_def AddAttribute_def Satisfies_def Lock_def
      Unlock_def RLock_def RLocker_def new_RWMutex_def)

text \<open>
  On a room whose mutex is free, \<open>AddAttribute\<close> returns the room with the
  attribute added and the mutex free again; calling it a second time changes nothing
  more; and when the attribute is already in the set the room is returned unchanged.
\<close>

theorem AddAttribute_idempotent_when_free:
  "\<not> writer (room_mu r) \<and> readerCount (room_mu r) = 0 \<longrightarrow>
     AddAttribute r a = Return (r\<lparr>room_attrs := (room_attrs r)(a \<mapsto> ())\<rparr>)
     \<and> exec_bind (AddAttribute r a) (\<lambda>r'. AddAttribute r' a) = AddAttribute r a
     \<and> (a \<in> dom (room_attrs r) \<longrightarrow> AddAttribute r a = Return r)"
  by (auto simp: AddAttribute_free fun_upd_idem)

theorem AddAttribute_idempotent_when_free_witness:
  "\<not> writer (room_mu (NewRoom 1\<lparr>room_attrs := [''a'' \<mapsto> ()]\<rparr>))
   \<and> readerCount (room_mu (NewRoom 1\<lparr>room_attrs := [''a'' \<mapsto> ()]\<rparr>)) = 0
   \<and> ''a'' \<in> dom (room_attrs (NewRoom 1\<lparr>room_attrs := [''a'' \<mapsto> ()]\<rparr>))
   \<and> AddAttribute (NewRoom 1\<lparr>room_attrs := [''a'' \<mapsto> ()]\<rparr>) ''a''
       = Return (NewRoom 1\<lparr>room_attrs := [''a'' \<mapsto> ()]\<rparr>)"
  using AddAttribute_idempotent_when_free
    [of "NewRoom 1\<lparr>room_attrs := [''a'' \<mapsto> ()]\<rparr>" "''a''"]
  by (simp add: NewRoom_def new_RWMutex_def)

section \<open>Package hotel: the loaders\<close>

text \<open>
  Claim C3. \<open>loadAttributes\<close> is claimed to take the first whitespace-delimited
  token of each line, so that the line \<open># comment\<close> and a blank line contribute
  nothing and the line \<open>view  ocean\<close> contributes \<open>view\<close>. The source splits the
  line at the two-byte string made of a space and a tab, which occurs in none of these
  lines: element 0 of the result is the whole line. The comment line and the line
  \<open>view  ocean\<close> are both appended whole; only the blank line is skipped.
\<close>

theorem loadAttributes_appends_whole_lines:
  "loadAttributes new_Hotel (Opened (Scanned [''# comment'', [], ''view  ocean''] None))
     = Return (new_Hotel\<lparr>roomAttrs := [''# comment'', ''view  ocean'']\<rparr>, None)"
  by (simp add: loadAttributes_def new_Hotel_def Lock_def Unlock_def
      new_RWMutex_def Split_def space_tab_def)

text \<open>
  Claim C1. With \<open>strict = false\<close> a record whose price is not a number is claimed
  to be dropped silently, the load returning no error and a registry with the
  well-formed room only. For such a record \<open>NewRoomFromRecord\<close> returns a \<open>nil\<close>
  room with its error; the loop skips the \<open>return\<close> because \<open>strict\<close> is false and
  goes on to \<open>rooms[room.ID()] = room\<close>, where \<open>ID\<close> dereferences the \<open>nil\<close>
  pointer. The load panics, and so does \<open>NewHotelFromData\<close>.
\<close>

theorem loadRooms_nonstrict_bad_price_panics:
  "loadRooms new_Hotel
     (Opened [Record [''id'', ''price'', ''state'', ''attributes''],
              Record [''101'', ''100'', ''FREE'', ''view''],
              Record [''102'', ''abc'', ''FREE'', ''view'']]) False = Panic
   \<and> NewHotelFromData (Opened (Scanned [''view''] None))
     (Opened [Record [''id'', ''price'', ''state'', ''attributes''],
              Record [''101'', ''100'', ''FREE'', ''view''],
              Record [''102'', ''abc'', ''FREE'', ''view'']]) False = Panic"
  by (simp add: example_defs NewHotelFromData_def loadAttributes_def loadRooms_def
      space_tab_def Lock_def Unlock_def)

text \<open>
  Claim C6. Whenever a loader fails, by a failure to open the file, a read-level
  failure or, in strict mode, the error of a record, \<open>NewHotelFromData\<close> is claimed
  to return no hotel. \<open>loadAttributes\<close> never calls \<open>scanner.Err()\<close>: when the
  scanner stops on a read error (here a line longer than its 64 KiB buffer, after the
  line \<open>view\<close>), the loop just ends, \<open>loadAttributes\<close> returns \<open>nil\<close> with the
  vocabulary read so far, and \<open>NewHotelFromData\<close> returns a hotel. The error of the
  scanner has no influence on the result at all.
\<close>

theorem NewHotelFromData_ignores_scanner_error:
  "NewHotelFromData (Opened (Scanned [''view''] (Some ''bufio.Scanner: token too long'')))
     (Opened [Record [''id'', ''price'', ''state'', ''attributes''],
              Record [''101'', ''100'', ''FREE'', ''view'']]) True
     = Return (Some \<lparr>hotel_mu = new_RWMutex, numRooms = 1, rooms =
          [101 \<mapsto> \<lparr>room_mu = new_RWMutex, room_id = 101, room_price = 100,
                     room_state = ''FREE'', room_attrs = [''view'' \<mapsto> ()]\<rparr>],
           roomAttrs = [''view'']\<rparr>, None)
   \<and> loadAttributes new_Hotel
         (Opened (Scanned [''view''] (Some ''bufio.Scanner: token too long'')))
     = Return (new_Hotel\<lparr>roomAttrs := [''view'']\<rparr>, None)
   \<and> NewHotelFromData (Opened (Scanned lines scan_err)) roomData strict
     = NewHotelFromData (Opened (Scanned lines None)) roomData strict"
  by (simp add: example_defs loadRooms_def NewHotelFromData_def loadAttributes_def
      Lock_def Unlock_def space_tab_def)

text \<open>
  What does hold of the errors that the loaders return. When \<open>NewHotelFromData\<close>
  returns an error it returns no hotel, and it returns a hotel when it returns no
  error. An error returned by \<open>loadAttributes\<close> is returned by \<open>NewHotelFromData\<close>
  with no hotel, and so is an error returned by \<open>loadRooms\<close> after
  \<open>loadAttributes\<close> returned none. A loader that returns an error leaves the hotel
  exactly as it was: \<open>loadAttributes\<close>, whose only error is the failure to open the
  file, and \<open>loadRooms\<close>, whose errors are the failure to open the file, an error of
  the reader and, in strict mode, the error of a record. When \<open>loadRooms\<close> returns
  no error, every room that the loop parsed is merged into the room mapping and
  nothing else changes.
\<close>

theorem failed_load_changes_nothing:
  "(NewHotelFromData attrData roomData strict = Return (hotel, err) \<longrightarrow>
      (hotel = None) = (err \<noteq> None))
   \<and> (loadAttributes new_Hotel attrData4 = Return (h4, Some e4) \<longrightarrow>
        NewHotelFromData attrData4 roomData4 strict4 = Return (None, Some e4))
   \<and> (loadAttributes new_Hotel attrData5 = Return (h5, None)
        \<and> loadRooms h5 roomData5 strict5 = Return (h5', Some e5) \<longrightarrow>
        NewHotelFromData attrData5 roomData5 strict5 = Return (None, Some e5))
   \<and> (loadAttributes h1 attrData1 = Return (h1', Some e1) \<longrightarrow> h1' = h1)
   \<and> (loadRooms h2 roomData2 strict2 = Return (h2', Some e2) \<longrightarrow> h2' = h2)
   \<and> (loadRooms h3 (Opened reads) strict3 = Return (h3', None) \<longrightarrow>
        (\<exists>parsed. loadRooms_loop (roomAttrs h3) strict3 reads True Map.empty
                     = Return (Inr parsed)
                 \<and> h3' = h3\<lparr>rooms := rooms h3 ++ parsed\<rparr>))"
  using NewHotelFromData_Return[of attrData roomData strict hotel err]
    loadAttributes_error[of h1 attrData1 h1' e1]
    loadRooms_error[of h2 roomData2 strict2 h2' e2]
  by (auto simp: loadRooms_Opened NewHotelFromData_def)

theorem failed_load_changes_nothing_witness:
  "NewHotelFromData (Opened (Scanned [''view''] None))
     (Opened [Record [''id'', ''price'', ''state'', ''attributes''],
              Record [''101'', ''100'', ''FREE'', ''view''],
              Record [''102'', ''abc'', ''FREE'', ''view'']]) True
     = Return (None, Some (RoomParseErr
                 (RecordPriceErr ''abc'' (ParseUintErr ''abc'' ErrSyntax))))
   \<and> loadAttributes new_Hotel (OpenFails ''no such file'')
     = Return (new_Hotel, Some (AttrsOpenErr ''no such file''))
   \<and> NewHotelFromData (OpenFails ''no such file'')
       (Opened [Record [''id'', ''price'', ''state'', ''attributes'']]) False
     = Return (None, Some (AttrsOpenErr ''no such file''))
   \<and> loadAttributes new_Hotel (Opened (Scanned [''view''] None))
     = Return (new_Hotel\<lparr>roomAttrs := [''view'']\<rparr>, None)
   \<and> loadRooms (new_Hotel\<lparr>roomAttrs := [''view'']\<rparr>)
       (Opened [Record [''id'', ''price'', ''state'', ''attributes''],
                Record [''101'', ''100'', ''FREE'', ''view''],
                Record [''102'', ''abc'', ''FREE'', ''view'']]) True
     = Return (new_Hotel\<lparr>roomAttrs := [''view'']\<rparr>,
               Some (RoomParseErr
                 (RecordPriceErr ''abc'' (ParseUintErr ''abc'' ErrSyntax))))
   \<and> loadRooms (new_Hotel\<lparr>rooms := [7 \<mapsto> NewRoom 7]\<rparr>)
       (Opened [Record [''id'', ''price'', ''state'', ''attributes''],
                Record [''101'', ''100'', ''FREE'', ''view''],
                ReadError ''wrong number of fields'']) False
     = Return (new_Hotel\<lparr>rooms := [7 \<mapsto> NewRoom 7]\<rparr>,
               Some (LoadFatalErr ''wrong number of fields''))
   \<and> loadRooms (new_Hotel\<lparr>rooms := [7 \<mapsto> NewRoom 7]\<rparr>)
       (Opened [Record [''id'', ''price'', ''state'', ''attributes''],
                Record [''101'', ''100'', ''FREE'', ''view'']]) False
     = Return (new_Hotel\<lparr>rooms :=
                 [7 \<mapsto> NewRoom 7,
                  101 \<mapsto> \<lparr>room_mu = new_RWMutex, room_id = 101, room_price = 100,
                            room_state = ''FREE'', room_attrs = [''view'' \<mapsto> ()]\<rparr>]\<rparr>,
               None)"
  using failed_load_changes_nothing
    [of "Opened (Scanned [''view''] None)"
        "Opened [Record [''id'', ''price'', ''state'', ''attributes''],
                 Record [''101'', ''100'', ''FREE'', ''view''],
                 Record [''102'', ''abc'', ''FREE'', ''view'']]" True None
        "Some (RoomParseErr (RecordPriceErr ''abc'' (ParseUintErr ''abc'' ErrSyntax)))"
        "OpenFails ''no such file''" new_Hotel "AttrsOpenErr ''no such file''"
        "Opened [Record [''id'', ''price'', ''state'', ''attributes'']]" False
        "Opened (Scanned [''view''] None)" "new_Hotel\<lparr>roomAttrs := [''view'']\<rparr>"
        "Opened [Record [''id'', ''price'', ''state'', ''attributes''],
                 Record [''101'', ''100'', ''FREE'', ''view''],
                 Record [''102'', ''abc'', ''FREE'', ''view'']]" True
        "new_Hotel\<lparr>roomAttrs := [''view'']\<rparr>"
        "RoomParseErr (RecordPriceErr ''abc'' (ParseUintErr ''abc'' ErrSyntax))"
        new_Hotel "OpenFails ''no such file''" new_Hotel "AttrsOpenErr ''no such file''"
        "new_Hotel\<lparr>rooms := [7 \<mapsto> NewRoom 7]\<rparr>"
        "Opened [Record [''id'', ''price'', ''state'', ''attributes''],
                 Record [''101'', ''100'', ''FREE'', ''view''],
                 ReadError ''wrong number of fields'']" False
        "new_Hotel\<lparr>rooms := [7 \<mapsto> NewRoom 7]\<rparr>"
        "LoadFatalErr ''wrong number of fields''"
        "new_Hotel\<lparr>rooms := [7 \<mapsto> NewRoom 7]\<rparr>"
        "[Record [''id'', ''price'', ''state'', ''attributes''],
          Record [''101'', ''100'', ''FREE'', ''view'']]" False
        "new_Hotel\<lparr>rooms :=
           [7 \<mapsto> NewRoom 7,
            101 \<mapsto> \<lparr>room_mu = new_RWMutex, room_id = 101, room_price = 100,
                      room_state = ''FREE'', room_attrs = [''view'' \<mapsto> ()]\<rparr>]\<rparr>"]
  by (simp add: example_defs loadRooms_def NewHotelFromData_def loadAttributes_def
      Lock_def Unlock_def space_tab_def)



text \<open>
  In a hotel returned by \<open>NewHotelFromData\<close> the room count is the size of
  the room mapping (as a \<open>uint\<close>).
\<close>

theorem numRooms_is_size_of_rooms:
  "NewHotelFromData attrData roomData strict = Return (Some hotel, err) \<longrightarrow>
     numRooms hotel = of_nat (card (dom (rooms hotel)))"
  by (auto dest!: NewHotelFromData_Some)

theorem numRooms_is_size_of_rooms_witness:
  "NewHotelFromData (Opened (Scanned [''view''] None))
     (Opened [Record [''id'', ''price'', ''state'', ''attributes''],
              Record [''101'', ''100'', ''FREE'', ''view''],
              Record [''102'', ''80'', ''FREE'', ''view'']]) True
     = Return (Some \<lparr>hotel_mu = new_RWMutex, numRooms = 2, rooms =
          [101 \<mapsto> \<lparr>room_mu = new_RWMutex, room_id = 101, room_price = 100,
                     room_state = ''FREE'', room_attrs = [''view'' \<mapsto> ()]\<rparr>,
           102 \<mapsto> \<lparr>room_mu = new_RWMutex, room_id = 102, room_price = 80,
                     room_state = ''FREE'', room_attrs = [''view'' \<mapsto> ()]\<rparr>],
           roomAttrs = [''view'']\<rparr>, None)"
  using numRooms_is_size_of_rooms
    [of "Opened (Scanned [''view''] None)"
        "Opened [Record [''id'', ''price'', ''state'', ''attributes''],
                 Record [''101'', ''100'', ''FREE'', ''view''],
                 Record [''102'', ''80'', ''FREE'', ''view'']]" True
        "\<lparr>hotel_mu = new_RWMutex, numRooms = 2, rooms =
          [101 \<mapsto> \<lparr>room_mu = new_RWMutex, room_id = 101, room_price = 100,
                     room_state = ''FREE'', room_attrs = [''view'' \<mapsto> ()]\<rparr>,
           102 \<mapsto> \<lparr>room_mu = new_RWMutex, room_id = 102, room_price = 80,
                     room_state = ''FREE'', room_attrs = [''view'' \<mapsto> ()]\<rparr>],
           roomAttrs = [''view'']\<rparr>" None]
  by (simp add: example_defs loadRooms_def NewHotelFromData_def loadAttributes_def
      Lock_def Unlock_def space_tab_def)

end
